theory Spec2Isabelle
  imports Complex_Main "HOL-Library.Sublist"
begin

section \<open>JavaScript strings\<close>



definition is_space :: "char \<Rightarrow> bool" where
  "is_space c \<longleftrightarrow> (of_char c :: nat) \<in> {9, 10, 11, 12, 13, 32}"

definition trim :: "string \<Rightarrow> string" where
  "trim s = rev (dropWhile is_space (rev (dropWhile is_space s)))"

text \<open>
  \<open>sanitizeInput\<close> of utils.js on a string:
  \<^verbatim>\<open>input.trim().replace(/[<>\"']/g, '')\<close> (the characters
  \<open>0x22\<close> and \<open>0x27\<close> are the double and the single quote).
\<close>

definition sanitizeInput :: "string \<Rightarrow> string" where
  "sanitizeInput input =
     filter (\<lambda>c. c \<notin> {CHR ''<'', CHR ''>'', CHR 0x22, CHR 0x27}) (trim input)"

text \<open>\<open>s.replace(pat, rep)\<close> with a string pattern replaces the first occurrence only.\<close>

fun replace_first :: "string \<Rightarrow> string \<Rightarrow> string \<Rightarrow> string" where
  "replace_first pat rep [] = (if pat = [] then rep else [])"
| "replace_first pat rep (c # cs) =
     (if prefix pat (c # cs) then rep @ drop (length pat) (c # cs)
      else c # replace_first pat rep cs)"

definition startsWith :: "string \<Rightarrow> string \<Rightarrow> bool" where
  "startsWith s pat = prefix pat s"

fun str_includes :: "string \<Rightarrow> string \<Rightarrow> bool" where
  "str_includes [] pat = (pat = [])"
| "str_includes (c # cs) pat = (prefix pat (c # cs) \<or> str_includes cs pat)"

section \<open>Rate limiter (utils.js)\<close>

text \<open>
  \<open>rateLimitStore\<close> is a \<open>Map\<close> from the key \<open>clientIP:endpoint\<close> to the list of
  recorded timestamps (milliseconds, \<open>Date.now()\<close>). The flag \<open>dev\<close> stands for
  \<open>process.env.NODE_ENV === 'development' || process.env.NETLIFY_DEV === 'true'\<close>.
\<close>

type_synonym rate_store = "string \<rightharpoonup> int list"

definition rate_key :: "string \<Rightarrow> string \<Rightarrow> string" where
  "rate_key clientIP endpoint = clientIP @ '':'' @ endpoint"

definition isDevelopment :: "bool \<Rightarrow> string \<Rightarrow> bool" where
  "isDevelopment dev clientIP \<longleftrightarrow>
     dev \<or> clientIP = ''localhost'' \<or> clientIP = ''127.0.0.1'' \<or> clientIP = ''::1''
       \<or> str_includes clientIP ''netlify''"

definition validRequests :: "rate_store \<Rightarrow> string \<Rightarrow> int \<Rightarrow> int \<Rightarrow> int list" where
  "validRequests store key now windowMs =
     filter (\<lambda>timestamp. timestamp > now - windowMs)
       (case store key of None \<Rightarrow> [] | Some requests \<Rightarrow> requests)"

text \<open>
  \<open>checkRateLimit\<close> returns the verdict and the store it leaves behind. A key
  that was absent is set to the empty list before the verdict, as in the source.
\<close>

definition checkRateLimit ::
  "bool \<Rightarrow> int \<Rightarrow> rate_store \<Rightarrow> string \<Rightarrow> string \<Rightarrow> nat \<Rightarrow> int \<Rightarrow> bool \<times> rate_store" where
  "checkRateLimit dev now store clientIP endpoint maxRequests windowMs =
     (if isDevelopment dev clientIP then (True, store)
      else
        let key = rate_key clientIP endpoint;
            store1 = (if store key = None then store(key \<mapsto> []) else store);
            valid = validRequests store1 key now windowMs
        in if length valid \<ge> maxRequests then (False, store1)
           else (True, store1(key \<mapsto> valid @ [now])))"

text \<open>The earlier copy of utils.js has the same function without the development bypass.\<close>

definition checkRateLimit_old ::
  "int \<Rightarrow> rate_store \<Rightarrow> string \<Rightarrow> string \<Rightarrow> nat \<Rightarrow> int \<Rightarrow> bool \<times> rate_store" where
  "checkRateLimit_old now store clientIP endpoint maxRequests windowMs =
     (let key = rate_key clientIP endpoint;
          store1 = (if store key = None then store(key \<mapsto> []) else store);
          valid = validRequests store1 key now windowMs
      in if length valid \<ge> maxRequests then (False, store1)
         else (True, store1(key \<mapsto> valid @ [now])))"

text \<open>A run of requests of one caller on one endpoint, at the given times.\<close>

fun rate_run ::
  "bool \<Rightarrow> rate_store \<Rightarrow> string \<Rightarrow> string \<Rightarrow> nat \<Rightarrow> int \<Rightarrow> int list \<Rightarrow> bool list \<times> rate_store" where
  "rate_run dev store clientIP endpoint maxRequests windowMs [] = ([], store)"
| "rate_run dev store clientIP endpoint maxRequests windowMs (now # nows) =
     (let (ok, store1) = checkRateLimit dev now store clientIP endpoint maxRequests windowMs;
          (oks, store2) = rate_run dev store1 clientIP endpoint maxRequests windowMs nows
      in (ok # oks, store2))"

definition recorded :: "rate_store \<Rightarrow> string \<Rightarrow> int list" where
  "recorded store key = (case store key of None \<Rightarrow> [] | Some requests \<Rightarrow> requests)"

section \<open>Data model (mockDB) and responses\<close>

text \<open>
  Record fields carry a prefix (\<open>u_\<close>, \<open>p_\<close>, \<open>o_\<close>, ...) because the source uses
  the same property names (\<open>id\<close>, \<open>name\<close>, \<open>status\<close>, ...) in several objects.
  JSON numbers are exact rationals; timestamps (\<open>Date.now()\<close>,
  \<open>new Date().toISOString()\<close>) are milliseconds as integers.
\<close>

type_synonym number = rat

record user =
  u_id :: int
  u_username :: string
  u_email :: string
  u_password :: string
  u_fullName :: string
  u_role :: string
  u_isActive :: bool
  u_createdAt :: int
  u_lastLogin :: "int option"

text \<open>
  \<open>p_isActive\<close> is the truthiness of \<open>product.isActive\<close>: the products of the
  initial mockDB have no such property, so it is \<open>False\<close> for them.
\<close>

record product =
  p_id :: int
  p_name :: string
  p_description :: string
  p_price :: number
  p_category :: string
  p_image :: string
  p_stock :: int
  p_isActive :: bool
  p_updatedAt :: "int option"

record shipping_address =
  a_fullName :: string
  a_address :: string
  a_city :: string
  a_postalCode :: string
  a_phone :: string

record order_item =
  i_productId :: int
  i_productName :: string
  i_productImage :: string
  i_price :: number
  i_quantity :: int
  i_subtotal :: number

record order =
  o_id :: int
  o_userId :: int
  o_orderNumber :: string
  o_items :: "order_item list"
  o_shippingAddress :: shipping_address
  o_paymentMethod :: string
  o_notes :: string
  o_status :: string
  o_subtotal :: number
  o_shippingCost :: number
  o_totalAmount :: number
  o_createdAt :: int
  o_updatedAt :: int
  o_estimatedDelivery :: "int option"
  o_trackingNumber :: "string option"
  o_paymentStatus :: string
  o_adminNotes :: "string option"

record mockDB =
  users :: "user list"
  products :: "product list"
  orders :: "order list"

text \<open>
  A response is \<open>createResponse(statusCode, body)\<close>: the status, the \<open>message\<close>
  and \<open>code\<close> of the body, and for a success the record the \<open>data\<close> is projected
  from. The headers are the same constant object in every response. Template
  literals in messages are kept as written, without interpolation.
\<close>

datatype resp_data =
    NoData
  | OrderCreated order
  | OrderUpdated order "string list"
  | UserRegistered user
  | LoginOk string user
  | ProductData product

record response =
  statusCode :: nat
  message :: string
  code :: "string option"
  data :: resp_data

definition createResponse :: "nat \<Rightarrow> string \<Rightarrow> resp_data \<Rightarrow> response" where
  "createResponse st msg d = \<lparr>statusCode = st, message = msg, code = None, data = d\<rparr>"

definition createErrorResponse :: "nat \<Rightarrow> string \<Rightarrow> string option \<Rightarrow> response" where
  "createErrorResponse st msg c =
     \<lparr>statusCode = st, message = msg,
      code = (case c of None \<Rightarrow> None | Some s \<Rightarrow> if s = [] then None else Some s),
      data = NoData\<rparr>"

text \<open>
  The request \<open>event\<close>: \<open>ev_body\<close> is the result of \<open>JSON.parse(event.body)\<close>,
  \<open>None\<close> when the parse throws; an absent header is \<open>None\<close>.
\<close>

record 'b event =
  ev_httpMethod :: string
  ev_client_ip :: "string option"
  ev_x_forwarded_for :: "string option"
  ev_authorization :: "string option"
  ev_path :: string
  ev_body :: "'b option"

definition handleCORS :: "'b event \<Rightarrow> response option" where
  "handleCORS event =
     (if ev_httpMethod event = ''OPTIONS''
      then Some \<lparr>statusCode = 200, message = [], code = None, data = NoData\<rparr>
      else None)"

text \<open>\<open>event.headers['client-ip'] || event.headers['x-forwarded-for'] || 'unknown'\<close>\<close>

definition clientIP_of :: "'b event \<Rightarrow> string" where
  "clientIP_of event =
     (case ev_client_ip event of
        Some ip \<Rightarrow> if ip \<noteq> [] then ip
                   else (case ev_x_forwarded_for event of
                           Some f \<Rightarrow> if f \<noteq> [] then f else ''unknown''
                         | None \<Rightarrow> ''unknown'')
      | None \<Rightarrow> (case ev_x_forwarded_for event of
                    Some f \<Rightarrow> if f \<noteq> [] then f else ''unknown''
                  | None \<Rightarrow> ''unknown''))"

text \<open>
  The environment of one invocation: the clock, the development flag of
  \<open>checkRateLimit\<close> and the order number string generated from
  \<open>Date.now()\<close> and \<open>Math.random()\<close>.
\<close>

record env =
  env_now :: int
  env_dev :: bool
  env_orderNumber :: string

section \<open>Token verification\<close>

text \<open>
  \<open>jwt.verify(token, JWT_SECRET)\<close> is the jsonwebtoken library: it is a
  parameter \<open>jv\<close> of the model, returning the decoded claims or the name of the
  error it throws. \<open>cl_success\<close> is the truthiness of a \<open>success\<close> claim and
  \<open>cl_payload\<close> a nested \<open>payload\<close> claim, the two properties the serverless
  handlers read from the value \<open>verifyToken\<close> returns.
\<close>

datatype jwt_error = TokenExpiredError | JsonWebTokenError | OtherError

record identity =
  ident_id :: int
  ident_role :: string

record claims =
  cl_id :: "int option"
  cl_email :: "string option"
  cl_username :: "string option"
  cl_role :: "string option"
  cl_iat :: "int option"
  cl_success :: bool
  cl_payload :: "identity option"

type_synonym jwt_verify = "string \<Rightarrow> jwt_error + claims"

text \<open>\<open>!decoded.id\<close> and \<open>!decoded.email\<close>\<close>

definition falsy_int :: "int option \<Rightarrow> bool" where
  "falsy_int v \<longleftrightarrow> (case v of None \<Rightarrow> True | Some n \<Rightarrow> n = 0)"

definition falsy_str :: "string option \<Rightarrow> bool" where
  "falsy_str v \<longleftrightarrow> (case v of None \<Rightarrow> True | Some s \<Rightarrow> s = [])"

text \<open>
  \<open>verifyToken\<close> of utils.js (serverless). Every throw inside is caught and
  rethrown as \<open>Error('Token verification failed')\<close>: \<open>Inl\<close> is that exception.
\<close>

definition verifyToken :: "jwt_verify \<Rightarrow> string \<Rightarrow> string + claims" where
  "verifyToken jv token =
     (if token = [] \<or> \<not> startsWith token ''Bearer '' then Inl ''Token verification failed''
      else
        let actualToken = trim (replace_first ''Bearer '' [] token) in
        (case jv actualToken of
           Inl e \<Rightarrow> Inl ''Token verification failed''
         | Inr decoded \<Rightarrow>
             if falsy_int (cl_id decoded) \<or> falsy_str (cl_email decoded)
             then Inl ''Token verification failed''
             else Inr decoded))"

text \<open>
  \<open>verifyToken\<close> of server.js (the Express middleware): the response it sends,
  or \<open>req.user\<close> when it calls \<open>next()\<close>. \<open>now\<close> is \<open>Date.now()\<close>.
\<close>

record req_user =
  ru_id :: "int option"
  ru_email :: "string option"
  ru_username :: "string option"
  ru_role :: "string option"

definition express_json :: "nat \<Rightarrow> string \<Rightarrow> string \<Rightarrow> response" where
  "express_json st msg c = \<lparr>statusCode = st, message = msg, code = Some c, data = NoData\<rparr>"

text \<open>
  \<open>Date.now() / 1000 - decoded.iat > 24 * 60 * 60\<close>; with \<open>iat\<close> absent the
  difference is \<open>NaN\<close> and the comparison is false.
\<close>

definition tokenTooOld :: "int \<Rightarrow> int option \<Rightarrow> bool" where
  "tokenTooOld now iat \<longleftrightarrow>
     (case iat of None \<Rightarrow> False
      | Some i \<Rightarrow> (of_int now :: rat) / 1000 - of_int i > 24 * 60 * 60)"

definition express_verifyToken :: "jwt_verify \<Rightarrow> int \<Rightarrow> string option \<Rightarrow> response + req_user" where
  "express_verifyToken jv now authHeader =
     (case authHeader of
        None \<Rightarrow> Inl (express_json 401 ''Access denied. No valid token provided.'' ''NO_TOKEN'')
      | Some h \<Rightarrow>
          if h = [] \<or> \<not> startsWith h ''Bearer ''
          then Inl (express_json 401 ''Access denied. No valid token provided.'' ''NO_TOKEN'')
          else
            let token = trim (replace_first ''Bearer '' [] h) in
            if token = [] \<or> length token < 10
            then Inl (express_json 401 ''Invalid token format'' ''INVALID_TOKEN_FORMAT'')
            else
              (case jv token of
                 Inl TokenExpiredError \<Rightarrow> Inl (express_json 401 ''Token has expired'' ''TOKEN_EXPIRED'')
               | Inl JsonWebTokenError \<Rightarrow> Inl (express_json 401 ''Invalid token'' ''INVALID_TOKEN'')
               | Inl OtherError \<Rightarrow> Inl (express_json 500 ''Token verification failed'' ''VERIFICATION_ERROR'')
               | Inr decoded \<Rightarrow>
                   if falsy_int (cl_id decoded) \<or> falsy_str (cl_email decoded)
                   then Inl (express_json 401 ''Invalid token payload'' ''INVALID_PAYLOAD'')
                   else if tokenTooOld now (cl_iat decoded)
                   then Inl (express_json 401 ''Token expired'' ''TOKEN_EXPIRED'')
                   else Inr \<lparr>ru_id = cl_id decoded, ru_email = cl_email decoded,
                             ru_username = cl_username decoded, ru_role = cl_role decoded\<rparr>))"

section \<open>Order creation (orders-create.js)\<close>

text \<open>
  A cart line as parsed from the JSON body: \<open>productId\<close> and \<open>quantity\<close> are
  JSON numbers, \<open>None\<close> when the property is absent. In the body, \<open>b_items\<close> is
  \<open>None\<close> when \<open>items\<close> is absent or not an array; an absent string property
  is the empty string (both are falsy and take the same branch).
\<close>

record cart_item =
  ci_productId :: "number option"
  ci_quantity :: "number option"

record create_body =
  b_items :: "cart_item list option"
  b_shippingAddress :: "shipping_address option"
  b_paymentMethod :: string
  b_notes :: string

text \<open>
  \<open>parseInt\<close> of a number drops the fractional part (for magnitudes between
  \<open>1e-6\<close> and \<open>1e21\<close>, where the number prints without an exponent).
\<close>

definition parseInt :: "number \<Rightarrow> int" where
  "parseInt x = (if x \<ge> 0 then \<lfloor>x\<rfloor> else \<lceil>x\<rceil>)"

text \<open>The first loop of the handler (lines 107-140): validate each line and price it.\<close>

fun processItems ::
  "product list \<Rightarrow> cart_item list \<Rightarrow> order_item list \<Rightarrow> number
     \<Rightarrow> response + order_item list \<times> number" where
  "processItems prods [] processedItems totalAmount = Inr (processedItems, totalAmount)"
| "processItems prods (item # rest) processedItems totalAmount =
     (case (ci_productId item, ci_quantity item) of
        (Some productId, Some quantity) \<Rightarrow>
          if productId = 0 \<or> quantity = 0 \<or> quantity \<le> 0
          then Inl (createErrorResponse 400
                  ''Invalid item: productId and positive quantity required'' None)
          else
            (case find (\<lambda>p. p_id p = parseInt productId) prods of
               None \<Rightarrow> Inl (createErrorResponse 400 ''Product with ID ${productId} not found'' None)
             | Some product \<Rightarrow>
                 if \<not> p_isActive product
                 then Inl (createErrorResponse 400
                         ''Product \"${product.name}\" is not available'' None)
                 else if of_int (p_stock product) < quantity
                 then Inl (createErrorResponse 400
                         ''Insufficient stock for product \"${product.name}\". Available: ${product.stock}, Requested: ${quantity}'' None)
                 else
                   let itemTotal = p_price product * quantity in
                   processItems prods rest
                     (processedItems @
                        [\<lparr>i_productId = p_id product, i_productName = p_name product,
                          i_productImage = p_image product, i_price = p_price product,
                          i_quantity = parseInt quantity, i_subtotal = itemTotal\<rparr>])
                     (totalAmount + itemTotal))
      | _ \<Rightarrow> Inl (createErrorResponse 400
                  ''Invalid item: productId and positive quantity required'' None))"

text \<open>
  \<open>const product = mockDB.products.find(p => p.id === id); if (product) product.stock += d\<close>:
  the first product with that id is changed in place; nothing happens when there is none.
\<close>

fun addStock :: "int \<Rightarrow> int \<Rightarrow> product list \<Rightarrow> product list" where
  "addStock pid d [] = []"
| "addStock pid d (p # ps) =
     (if p_id p = pid then p\<lparr>p_stock := p_stock p + d\<rparr> # ps else p # addStock pid d ps)"

text \<open>The second loop (lines 167-172): \<open>product.stock -= item.quantity\<close> for each line.\<close>

fun updateStocks :: "product list \<Rightarrow> order_item list \<Rightarrow> product list" where
  "updateStocks prods [] = prods"
| "updateStocks prods (item # rest) =
     updateStocks (addStock (i_productId item) (- i_quantity item) prods) rest"

definition allowedPaymentMethods :: "string list" where
  "allowedPaymentMethods =
     [''credit_card'', ''debit_card'', ''bank_transfer'', ''e_wallet'', ''cash_on_delivery'']"

definition shippingCost_of :: "number \<Rightarrow> number" where
  "shippingCost_of totalAmount = (if totalAmount > 100 then 0 else 15)"

definition internalError_create :: response where
  "internalError_create =
     createErrorResponse 500 ''Internal server error during order creation''
       (Some ''ORDER_CREATE_ERROR'')"

text \<open>
  The validation of the parsed body (lines 54-101): the presence checks, the
  sanitized shipping address with its length bounds, and the payment method. It
  reads nothing of mockDB and gives the cart and the sanitized address.
\<close>

definition validateBody :: "create_body \<Rightarrow> response + cart_item list \<times> shipping_address" where
  "validateBody b =
     (case b_items b of
        None \<Rightarrow> Inl (createErrorResponse 400 ''Order items are required'' None)
      | Some items \<Rightarrow>
         if items = [] then Inl (createErrorResponse 400 ''Order items are required'' None)
         else
          (case b_shippingAddress b of
             None \<Rightarrow> Inl (createErrorResponse 400 ''Shipping address is required'' None)
           | Some sa \<Rightarrow>
              if b_paymentMethod b = []
              then Inl (createErrorResponse 400 ''Payment method is required'' None)
              else if a_fullName sa = [] \<or> a_address sa = [] \<or> a_city sa = []
                      \<or> a_postalCode sa = [] \<or> a_phone sa = []
              then Inl (createErrorResponse 400
                      ''Complete shipping address required (fullName, address, city, postalCode, phone)''
                      None)
              else
                let sanitizedShippingAddress =
                      \<lparr>a_fullName = sanitizeInput (a_fullName sa),
                       a_address = sanitizeInput (a_address sa),
                       a_city = sanitizeInput (a_city sa),
                       a_postalCode = sanitizeInput (a_postalCode sa),
                       a_phone = sanitizeInput (a_phone sa)\<rparr>
                in
                if length (a_fullName sanitizedShippingAddress) < 2
                   \<or> length (a_fullName sanitizedShippingAddress) > 100
                then Inl (createErrorResponse 400 ''Full name must be between 2-100 characters'' None)
                else if length (a_address sanitizedShippingAddress) < 5
                   \<or> length (a_address sanitizedShippingAddress) > 200
                then Inl (createErrorResponse 400 ''Address must be between 5-200 characters'' None)
                else if length (a_city sanitizedShippingAddress) < 2
                   \<or> length (a_city sanitizedShippingAddress) > 50
                then Inl (createErrorResponse 400 ''City must be between 2-50 characters'' None)
                else if b_paymentMethod b \<notin> set allowedPaymentMethods
                then Inl (createErrorResponse 400 ''Invalid payment method'' None)
                else Inr (items, sanitizedShippingAddress)))"

text \<open>
  The handler from the parse of the body to the 201 response (lines 46-197), for the
  value \<open>decoded\<close> that \<open>verifyToken\<close> returned. Reading \<open>decoded.payload.id\<close>
  with no \<open>payload\<close> throws; the handler's \<open>catch\<close> answers 500.
\<close>

definition createOrder :: "env \<Rightarrow> mockDB \<Rightarrow> claims \<Rightarrow> create_body option \<Rightarrow> response \<times> mockDB" where
  "createOrder e db decoded body =
     (case body of
        None \<Rightarrow> (createErrorResponse 400 ''Invalid JSON body'' None, db)
      | Some b \<Rightarrow>
         (case validateBody b of
            Inl err \<Rightarrow> (err, db)
          | Inr (items, sanitizedShippingAddress) \<Rightarrow>
             (case processItems (products db) items [] 0 of
                Inl err \<Rightarrow> (err, db)
              | Inr (processedItems, totalAmount) \<Rightarrow>
                 (case cl_payload decoded of
                    None \<Rightarrow> (internalError_create, db)
                  | Some payload \<Rightarrow>
                     let shippingCost = shippingCost_of totalAmount;
                         finalAmount = totalAmount + shippingCost;
                         newOrder =
                           \<lparr>o_id = int (length (orders db)) + 1,
                            o_userId = ident_id payload,
                            o_orderNumber = env_orderNumber e,
                            o_items = processedItems,
                            o_shippingAddress = sanitizedShippingAddress,
                            o_paymentMethod = b_paymentMethod b,
                            o_notes = (if b_notes b \<noteq> [] then sanitizeInput (b_notes b) else []),
                            o_status = ''pending'',
                            o_subtotal = totalAmount,
                            o_shippingCost = shippingCost,
                            o_totalAmount = finalAmount,
                            o_createdAt = env_now e,
                            o_updatedAt = env_now e,
                            o_estimatedDelivery = Some (env_now e + 7 * 24 * 60 * 60 * 1000),
                            o_trackingNumber = None,
                            o_paymentStatus = ''pending'',
                            o_adminNotes = None\<rparr>
                     in (createResponse 201 ''Order created successfully'' (OrderCreated newOrder),
                         db\<lparr>products := updateStocks (products db) processedItems,
                            orders := orders db @ [newOrder]\<rparr>)))))"

text \<open>The whole handler (lines 12-204), with the rate-limit store it leaves behind.\<close>

definition orders_create_handler ::
  "jwt_verify \<Rightarrow> env \<Rightarrow> mockDB \<Rightarrow> rate_store \<Rightarrow> create_body event
     \<Rightarrow> response \<times> mockDB \<times> rate_store" where
  "orders_create_handler jv e db store event =
     (case handleCORS event of
        Some corsResponse \<Rightarrow> (corsResponse, db, store)
      | None \<Rightarrow>
         if ev_httpMethod event \<noteq> ''POST''
         then (createErrorResponse 405 ''Method not allowed'' None, db, store)
         else
           let (allowed, store1) =
                 checkRateLimit (env_dev e) (env_now e) store (clientIP_of event)
                   ''order-create'' 10 (60 * 60 * 1000)
           in
           if \<not> allowed
           then (createErrorResponse 429 ''Too many order attempts, please try again later.'' None,
                 db, store1)
           else
            (case map_option (replace_first ''Bearer '' []) (ev_authorization event) of
               None \<Rightarrow> (createErrorResponse 401 ''Access token required'' (Some ''TOKEN_REQUIRED''),
                         db, store1)
             | Some token \<Rightarrow>
                if token = []
                then (createErrorResponse 401 ''Access token required'' (Some ''TOKEN_REQUIRED''),
                      db, store1)
                else
                 (case verifyToken jv token of
                    Inl thrown \<Rightarrow> (internalError_create, db, store1)
                  | Inr decoded \<Rightarrow>
                     if \<not> cl_success decoded
                     then (createErrorResponse 401 ''Invalid access token'' (Some ''INVALID_TOKEN''),
                           db, store1)
                     else
                       let (resp, db1) = createOrder e db decoded (ev_body event)
                       in (resp, db1, store1))))"

section \<open>Order update (orders-manage.js)\<close>






text \<open>The restoration loop (lines 127-132): \<open>product.stock += item.quantity\<close>.\<close>

fun restoreStocks :: "product list \<Rightarrow> order_item list \<Rightarrow> product list" where
  "restoreStocks prods [] = prods"
| "restoreStocks prods (item # rest) =
     restoreStocks (addStock (i_productId item) (i_quantity item) prods) rest"






text \<open>\<open>mockDB.orders.findIndex(o => o.id === numOrderId)\<close>, \<open>None\<close> for \<open>-1\<close>.\<close>

fun findIndex :: "('a \<Rightarrow> bool) \<Rightarrow> 'a list \<Rightarrow> nat option" where
  "findIndex P [] = None"
| "findIndex P (x # xs) = (if P x then Some 0 else map_option Suc (findIndex P xs))"


section \<open>Registration and login (register.js, login.js)\<close>










section \<open>The Express server (server.js)\<close>



text \<open>
  \<open>PUT /api/products/:id\<close> (lines 821-848). The route has no validation
  middleware; \<open>price\<close> and \<open>stock\<close> of the body are JSON numbers, \<open>None\<close> when
  absent, and an absent string is empty. \<open>file\<close> is the uploaded file's name.
\<close>

record product_update =
  pu_name :: string
  pu_price :: "number option"
  pu_description :: string
  pu_category :: string
  pu_stock :: "number option"

definition express_updateProduct ::
  "int \<Rightarrow> product list \<Rightarrow> int \<Rightarrow> product_update \<Rightarrow> string option \<Rightarrow> response \<times> product list" where
  "express_updateProduct now productsFile idParam body file =
     (case findIndex (\<lambda>p. p_id p = idParam) productsFile of
        None \<Rightarrow> (createResponse 404 ''Produk tidak ditemukan'' NoData, productsFile)
      | Some productIndex \<Rightarrow>
          let old = productsFile ! productIndex;
              new = old\<lparr>
                p_name := (if pu_name body \<noteq> [] then pu_name body else p_name old),
                p_price := (case pu_price body of
                              Some price \<Rightarrow> if price \<noteq> 0 then of_int (parseInt price)
                                            else p_price old
                            | None \<Rightarrow> p_price old),
                p_description := (if pu_description body \<noteq> [] then pu_description body
                                  else p_description old),
                p_category := (if pu_category body \<noteq> [] then pu_category body else p_category old),
                p_stock := (case pu_stock body of
                              Some stock \<Rightarrow> if stock \<noteq> 0 then parseInt stock else p_stock old
                            | None \<Rightarrow> p_stock old),
                p_image := (case file of Some filename \<Rightarrow> ''/images/products/'' @ filename
                            | None \<Rightarrow> p_image old),
                p_updatedAt := Some now\<rparr>
          in (createResponse 200 ''Produk berhasil diupdate'' (ProductData new),
              productsFile[productIndex := new]))"

section \<open>Notions of the specification\<close>

text \<open>
  A cart line fails validation when its product is missing, its product is
  inactive, or the requested quantity exceeds the current stock.
\<close>

definition line_fails :: "product list \<Rightarrow> cart_item \<Rightarrow> bool" where
  "line_fails prods item \<longleftrightarrow>
     (case ci_productId item of
        None \<Rightarrow> True
      | Some productId \<Rightarrow>
         (case find (\<lambda>p. p_id p = parseInt productId) prods of
            None \<Rightarrow> True
          | Some product \<Rightarrow>
              \<not> p_isActive product
              \<or> (case ci_quantity item of
                    None \<Rightarrow> False
                  | Some quantity \<Rightarrow> quantity > of_int (p_stock product))))"

text \<open>The stock of the product an id refers to, as \<open>find\<close> resolves it.\<close>

definition stock_of :: "product list \<Rightarrow> int \<Rightarrow> int option" where
  "stock_of prods pid = map_option p_stock (find (\<lambda>p. p_id p = pid) prods)"








section \<open>Sample data\<close>

text \<open>
  A small store in the shape products-create.js gives its products
  (\<open>isActive: true\<close>), an environment, an address and the value a verified
  token would have to decode to for the order handler to go on.
\<close>

definition sample_product :: "int \<Rightarrow> string \<Rightarrow> number \<Rightarrow> int \<Rightarrow> product" where
  "sample_product i n pr st =
     \<lparr>p_id = i, p_name = n, p_description = ''A product for the examples'', p_price = pr,
      p_category = ''Electronics'', p_image = ''https://picsum.photos/400/300'', p_stock = st,
      p_isActive = True, p_updatedAt = None\<rparr>"

definition sample_db :: mockDB where
  "sample_db =
     \<lparr>users = [],
      products = [sample_product 1 ''Phone'' 50 10, sample_product 2 ''Cable'' 20 3],
      orders = []\<rparr>"

definition sample_env :: env where
  "sample_env = \<lparr>env_now = 1700000000000, env_dev = False, env_orderNumber = ''ORD-1700000000000-AB12C''\<rparr>"

definition sample_address :: shipping_address where
  "sample_address =
     \<lparr>a_fullName = ''Alice A'', a_address = ''12 Main Street'', a_city = ''Jakarta'',
      a_postalCode = ''10110'', a_phone = ''0800000000''\<rparr>"

definition sample_decoded :: claims where
  "sample_decoded =
     \<lparr>cl_id = Some 2, cl_email = Some ''user@alandstore.com'', cl_username = Some ''user'',
      cl_role = Some ''user'', cl_iat = Some 1700000000, cl_success = True,
      cl_payload = Some \<lparr>ident_id = 2, ident_role = ''user''\<rparr>\<rparr>"

definition line :: "number \<Rightarrow> number \<Rightarrow> cart_item" where
  "line productId quantity = \<lparr>ci_productId = Some productId, ci_quantity = Some quantity\<rparr>"

definition sample_body :: "cart_item list \<Rightarrow> create_body" where
  "sample_body items =
     \<lparr>b_items = Some items, b_shippingAddress = Some sample_address,
      b_paymentMethod = ''credit_card'', b_notes = []\<rparr>"

definition sample_event :: "string option \<Rightarrow> 'b \<Rightarrow> 'b event" where
  "sample_event auth body =
     \<lparr>ev_httpMethod = ''POST'', ev_client_ip = Some ''203.0.113.7'', ev_x_forwarded_for = None,
      ev_authorization = auth, ev_path = ''/.netlify/functions/orders-create'',
      ev_body = Some body\<rparr>"

text \<open>
  A verifier that accepts exactly one token, decoding it to the given claims, and
  the token the login handler would sign for the demo user.
\<close>

definition sample_jv :: "claims \<Rightarrow> jwt_verify" where
  "sample_jv decoded token = (if token = ''header.payload.signature'' then Inr decoded
                              else Inl JsonWebTokenError)"

definition login_claims :: claims where
  "login_claims =
     \<lparr>cl_id = Some 2, cl_email = Some ''user@alandstore.com'', cl_username = Some ''user'',
      cl_role = Some ''user'', cl_iat = Some 1700000000, cl_success = False, cl_payload = None\<rparr>"













section \<open>The rate limiter\<close>

lemma validRequests_recorded:
  "validRequests store key now w = filter (\<lambda>t. t > now - w) (recorded store key)"
  by (simp add: validRequests_def recorded_def)

lemma checkRateLimit_refuse:
  assumes "\<not> isDevelopment dev ip"
    and "N \<le> length (filter (\<lambda>t. t > now - w) (recorded store (rate_key ip ep)))"
  shows "fst (checkRateLimit dev now store ip ep N w) = False"
    and "recorded (snd (checkRateLimit dev now store ip ep N w)) k = recorded store k"
  using assms
  by (auto simp: checkRateLimit_def Let_def validRequests_def recorded_def split: option.splits)

lemma checkRateLimit_allow:
  assumes "\<not> isDevelopment dev ip"
    and "length (filter (\<lambda>t. t > now - w) (recorded store (rate_key ip ep))) < N"
  shows "fst (checkRateLimit dev now store ip ep N w) = True"
    and "recorded (snd (checkRateLimit dev now store ip ep N w)) (rate_key ip ep)
           = filter (\<lambda>t. t > now - w) (recorded store (rate_key ip ep)) @ [now]"
    and "k \<noteq> rate_key ip ep \<Longrightarrow> recorded (snd (checkRateLimit dev now store ip ep N w)) k = recorded store k"
  using assms
  by (auto simp: checkRateLimit_def Let_def validRequests_def recorded_def split: option.splits)

lemma rate_run_allowed:
  assumes "\<not> isDevelopment dev ip"
    and "recorded store (rate_key ip ep) = old @ new"
    and "\<forall>x\<in>set old. \<forall>t\<in>set ts. x \<le> t - w"
    and "\<forall>x\<in>set new \<union> set ts. \<forall>t\<in>set ts. x > t - w"
    and "length new + length ts \<le> N"
  shows "fst (rate_run dev store ip ep N w ts) = replicate (length ts) True
       \<and> recorded (snd (rate_run dev store ip ep N w ts)) (rate_key ip ep)
           = (if ts = [] then old else []) @ new @ ts"
  using assms
proof (induction ts arbitrary: store old new)
  case Nil
  then show ?case by simp
next
  case (Cons t ts)
  let ?r = "checkRateLimit dev t store ip ep N w"
  have f: "filter (\<lambda>x. x > t - w) (recorded store (rate_key ip ep)) = new"
  proof -
    have "filter (\<lambda>x. x > t - w) old = []" using Cons.prems(3) by (auto simp: filter_empty_conv)
    moreover have "filter (\<lambda>x. x > t - w) new = new" using Cons.prems(4) by (auto simp: filter_id_conv)
    ultimately show ?thesis using Cons.prems(2) by simp
  qed
  have lt: "length new < N" using Cons.prems(5) by simp
  have ok: "fst ?r = True" and rec: "recorded (snd ?r) (rate_key ip ep) = [] @ (new @ [t])"
    using checkRateLimit_allow[OF Cons.prems(1), of t w store ep N] f lt by simp_all
  have ih: "fst (rate_run dev (snd ?r) ip ep N w ts) = replicate (length ts) True
       \<and> recorded (snd (rate_run dev (snd ?r) ip ep N w ts)) (rate_key ip ep)
           = (if ts = [] then [] else []) @ (new @ [t]) @ ts"
    apply (rule Cons.IH[OF Cons.prems(1) rec])
    using Cons.prems(4,5) by auto
  show ?case using ok ih by (simp add: case_prod_unfold Let_def)
qed


lemma rate_run_append:
  "rate_run dev store ip ep N w (xs @ ys) =
     (fst (rate_run dev store ip ep N w xs) @ fst (rate_run dev (snd (rate_run dev store ip ep N w xs)) ip ep N w ys),
      snd (rate_run dev (snd (rate_run dev store ip ep N w xs)) ip ep N w ys))"
  by (induction xs arbitrary: store) (simp_all add: case_prod_unfold Let_def)

text \<open>
  Claim C6, amended. For a caller that is not a development address (and outside
  development mode), on a key configured for \<open>N > 0\<close> requests per window \<open>w\<close>:
  when \<open>N\<close> requests arrive at times \<open>ts\<close> (every timestamp recorded earlier being
  older than the window), each of them is allowed and records its timestamp; a
  further request at \<open>t_over\<close>, within the window of all of them, is refused and
  records nothing; and a request at \<open>t_late\<close>, when the window has elapsed since
  all of them, is allowed again, the old timestamps being pruned.
\<close>

theorem checkRateLimit_window:
  assumes nodev: "\<not> isDevelopment dev ip"
    and len: "length ts = N" and pos: "0 < N"
    and stale: "\<forall>x\<in>set (recorded store (rate_key ip ep)). \<forall>t\<in>set ts. x \<le> t - w"
    and within: "\<forall>t\<in>set ts. t \<le> t_over \<and> t_over - w < t"
    and elapsed: "\<forall>t\<in>set ts. t \<le> t_late - w"
  shows "fst (rate_run dev store ip ep N w (ts @ [t_over, t_late])) = replicate N True @ [False, True]
       \<and> recorded (snd (rate_run dev store ip ep N w ts)) (rate_key ip ep) = ts
       \<and> recorded (snd (rate_run dev store ip ep N w (ts @ [t_over]))) (rate_key ip ep) = ts
       \<and> recorded (snd (rate_run dev store ip ep N w (ts @ [t_over, t_late]))) (rate_key ip ep) = [t_late]"
proof -
  let ?k = "rate_key ip ep"
  let ?s1 = "snd (rate_run dev store ip ep N w ts)"
  have ne: "ts \<noteq> []" using len pos by auto
  have pair: "\<forall>x\<in>set [] \<union> set ts. \<forall>t\<in>set ts. x > t - w" 
  proof (intro ballI)
    fix x t assume "x \<in> set [] \<union> set ts" "t \<in> set ts"
    then have "t_over - w < x" "t \<le> t_over" using within by auto
    then show "x > t - w" by linarith
  qed
  have run1: "fst (rate_run dev store ip ep N w ts) = replicate N True"
    and rec1: "recorded ?s1 ?k = ts"
    using rate_run_allowed[OF nodev, of store ep "recorded store ?k" "[]" ts w N] stale pair len ne
    by simp_all
  let ?r2 = "checkRateLimit dev t_over ?s1 ip ep N w"
  have full: "N \<le> length (filter (\<lambda>t. t > t_over - w) (recorded ?s1 ?k))"
  proof -
    have "filter (\<lambda>t. t > t_over - w) ts = ts" using within by (auto simp: filter_id_conv)
    then show ?thesis using rec1 len by simp
  qed
  have no2: "fst ?r2 = False" and rec2: "recorded (snd ?r2) ?k = ts"
    using checkRateLimit_refuse[OF nodev full] rec1 by simp_all
  let ?r3 = "checkRateLimit dev t_late (snd ?r2) ip ep N w"
  have none: "filter (\<lambda>t. t > t_late - w) (recorded (snd ?r2) ?k) = []"
    using elapsed rec2 by (auto simp: filter_empty_conv)
  have ok3: "fst ?r3 = True" and rec3: "recorded (snd ?r3) ?k = [t_late]"
    using checkRateLimit_allow[OF nodev, of t_late w "snd ?r2" ep N] none pos by simp_all
  show ?thesis
    using run1 rec1 no2 rec2 ok3 rec3
    by (simp add: rate_run_append case_prod_unfold Let_def)
qed

theorem checkRateLimit_window_witness:
  "\<not> isDevelopment False ''203.0.113.7''
   \<and> fst (rate_run False Map.empty ''203.0.113.7'' ''login'' 2 1000 ([0, 10] @ [20, 1010])) = replicate 2 True @ [False, True]
   \<and> recorded (snd (rate_run False Map.empty ''203.0.113.7'' ''login'' 2 1000 ([0, 10] @ [20, 1010]))) (rate_key ''203.0.113.7'' ''login'') = [1010]"
proof -
  have a: "\<not> isDevelopment False ''203.0.113.7''" by (simp add: isDevelopment_def)
  show ?thesis
    using checkRateLimit_window[OF a, of "[0, 10]" 2 Map.empty "''login''" 1000 20 1010]
    using a by (simp add: recorded_def)
qed

text \<open>
  Claim C6 as stated ("for every (caller, endpoint) key") fails for the callers
  \<open>checkRateLimit\<close> exempts: from \<open>127.0.0.1\<close>, with one request allowed per
  window, the second request inside the window is allowed and nothing is recorded.
\<close>

theorem checkRateLimit_bypass_counterexample:
  "fst (rate_run False Map.empty ''127.0.0.1'' ''login'' 1 1000 [0, 1]) = [True, True]
   \<and> snd (rate_run False Map.empty ''127.0.0.1'' ''login'' 1 1000 [0, 1]) (rate_key ''127.0.0.1'' ''login'') = None"
  by (simp add: checkRateLimit_def isDevelopment_def)

text \<open>The earlier copy of utils.js agrees with the current one on every other caller.\<close>

lemma checkRateLimit_old_eq:
  "\<not> isDevelopment False ip \<Longrightarrow>
     checkRateLimit_old now store ip ep N w = checkRateLimit False now store ip ep N w"
  by (simp add: checkRateLimit_old_def checkRateLimit_def)

section \<open>Order creation\<close>

lemma processItems_error_status:
  "processItems prods items acc tot = Inl err \<Longrightarrow> statusCode err = 400"
proof (induction items arbitrary: acc tot)
  case Nil
  then show ?case by simp
next
  case (Cons item rest)
  then show ?case
    by (auto simp: createErrorResponse_def Let_def split: option.splits if_splits)
qed

lemma processItems_fails:
  "\<exists>item\<in>set items. line_fails prods item \<Longrightarrow> isl (processItems prods items acc tot)"
proof (induction items arbitrary: acc tot)
  case Nil
  then show ?case by simp
next
  case (Cons item rest)
  show ?case
  proof (cases "line_fails prods item")
    case True
    then show ?thesis
      by (auto simp: line_fails_def Let_def split: option.splits)
  next
    case False
    with Cons.prems have "\<exists>i\<in>set rest. line_fails prods i" by simp
    from Cons.IH[OF this] show ?thesis
      by (auto simp: Let_def split: option.splits)
  qed
qed

lemma validateBody_error_status: "validateBody b = Inl err \<Longrightarrow> statusCode err = 400"
  by (auto simp: validateBody_def createErrorResponse_def Let_def split: option.splits if_splits)

lemma validateBody_items: "validateBody b = Inr (items, sa) \<Longrightarrow> b_items b = Some items"
  by (auto simp: validateBody_def Let_def split: option.splits if_splits)

lemma createOrder_items_error:
  assumes "isl (processItems (products db) items [] 0)"
    and "b_items b = Some items"
  shows "statusCode (fst (createOrder e db decoded (Some b))) = 400
       \<and> snd (createOrder e db decoded (Some b)) = db"
proof (cases "validateBody b")
  case (Inl err)
  then show ?thesis
    using validateBody_error_status[OF Inl] by (simp add: createOrder_def)
next
  case (Inr r)
  obtain items' sa where r: "r = (items', sa)" by (cases r)
  have "items' = items" using validateBody_items[of b items' sa] Inr r assms(2) by simp
  moreover from assms(1) obtain err where err: "processItems (products db) items [] 0 = Inl err"
    by (cases "processItems (products db) items [] 0") auto
  moreover have "statusCode err = 400" using processItems_error_status[OF err] .
  ultimately show ?thesis
    using Inr r by (simp add: createOrder_def)
qed

lemma orders_create_handler_cases:
  "ev_httpMethod event = ''POST'' \<Longrightarrow>
   (statusCode (fst (orders_create_handler jv e db store event)) \<in> {401, 429, 500}
      \<and> fst (snd (orders_create_handler jv e db store event)) = db)
   \<or> (\<exists>h decoded. ev_authorization event = Some h
        \<and> verifyToken jv (replace_first ''Bearer '' [] h) = Inr decoded
        \<and> cl_success decoded
        \<and> fst (orders_create_handler jv e db store event) = fst (createOrder e db decoded (ev_body event))
        \<and> fst (snd (orders_create_handler jv e db store event)) = snd (createOrder e db decoded (ev_body event)))"
  by (auto simp: orders_create_handler_def handleCORS_def createErrorResponse_def
        internalError_create_def Let_def case_prod_unfold split: option.splits sum.splits)

text \<open>
  Claim C1. When any line of the cart fails validation (its product is missing or
  inactive, or the requested quantity exceeds the current stock), order creation
  answers with an error (400) and leaves mockDB as it was: no stock is changed, also
  not for earlier lines that passed, and no order is stored. The same holds for the
  whole handler on a POST of that body, whose error may also come from the rate
  limiter or the token check. Stock changes only in the loop after \<open>processItems\<close>.
\<close>

theorem createOrder_all_or_nothing:
  assumes items: "b_items b = Some items"
    and fails: "\<exists>item\<in>set items. line_fails (products db) item"
  shows "statusCode (fst (createOrder e db decoded (Some b))) = 400
       \<and> snd (createOrder e db decoded (Some b)) = db
       \<and> (ev_httpMethod event = ''POST'' \<and> ev_body event = Some b \<longrightarrow>
            statusCode (fst (orders_create_handler jv e db store event)) \<in> {400, 401, 429, 500}
            \<and> fst (snd (orders_create_handler jv e db store event)) = db)"
proof -
  have core: "\<And>d. statusCode (fst (createOrder e db d (Some b))) = 400
       \<and> snd (createOrder e db d (Some b)) = db"
    using createOrder_items_error[OF processItems_fails[OF fails] items] by simp
  show ?thesis
  proof (intro conjI impI)
    assume h: "ev_httpMethod event = ''POST'' \<and> ev_body event = Some b"
    from orders_create_handler_cases[of event jv e db store] h core
    show "statusCode (fst (orders_create_handler jv e db store event)) \<in> {400, 401, 429, 500}"
      by auto
    from orders_create_handler_cases[of event jv e db store] h core
    show "fst (snd (orders_create_handler jv e db store event)) = db"
      by auto
  qed (use core in simp_all)
qed

theorem createOrder_all_or_nothing_witness:
  "b_items (sample_body [line 1 2, line 2 5]) = Some [line 1 2, line 2 5]
   \<and> \<not> line_fails (products sample_db) (line 1 2)
   \<and> line_fails (products sample_db) (line 2 5)
   \<and> statusCode (fst (createOrder sample_env sample_db sample_decoded
         (Some (sample_body [line 1 2, line 2 5])))) = 400
   \<and> snd (createOrder sample_env sample_db sample_decoded
         (Some (sample_body [line 1 2, line 2 5]))) = sample_db
   \<and> ev_httpMethod (sample_event (Some ''Bearer Bearer header.payload.signature'')
         (sample_body [line 1 2, line 2 5])) = ''POST''
   \<and> fst (snd (orders_create_handler (sample_jv sample_decoded) sample_env sample_db Map.empty
         (sample_event (Some ''Bearer Bearer header.payload.signature'')
            (sample_body [line 1 2, line 2 5])))) = sample_db"
proof -
  have a: "b_items (sample_body [line 1 2, line 2 5]) = Some [line 1 2, line 2 5]"
    by (simp add: sample_body_def)
  have b: "line_fails (products sample_db) (line 2 5)"
    by (simp add: line_fails_def line_def sample_db_def sample_product_def parseInt_def)
  have c: "\<not> line_fails (products sample_db) (line 1 2)"
    by (simp add: line_fails_def line_def sample_db_def sample_product_def parseInt_def)
  have d: "\<exists>item\<in>set [line 1 2, line 2 5]. line_fails (products sample_db) item"
    using b by simp
  have ev: "ev_httpMethod (sample_event (Some ''Bearer Bearer header.payload.signature'')
         (sample_body [line 1 2, line 2 5])) = ''POST''
     \<and> ev_body (sample_event (Some ''Bearer Bearer header.payload.signature'')
         (sample_body [line 1 2, line 2 5])) = Some (sample_body [line 1 2, line 2 5])"
    by (simp add: sample_event_def)
  show ?thesis
    using a b c ev
      createOrder_all_or_nothing[OF a d, of sample_env sample_decoded
        "sample_event (Some ''Bearer Bearer header.payload.signature'')
           (sample_body [line 1 2, line 2 5])" "sample_jv sample_decoded" Map.empty]
    by simp
qed

lemma sample_body_valid:
  "items \<noteq> [] \<Longrightarrow> validateBody (sample_body items) = Inr (items, sample_address)"
  by (simp add: validateBody_def sample_body_def sample_address_def sanitizeInput_def trim_def
        is_space_def allowedPaymentMethods_def)

lemma processItems_priced:
  "processItems prods items acc tot = Inr (its, t) \<Longrightarrow>
     \<exists>new. its = acc @ new \<and> t = tot + sum_list (map i_subtotal new)
       \<and> list_all2 (\<lambda>ci oi. \<exists>q. ci_quantity ci = Some q \<and> 0 < q
                      \<and> i_subtotal oi = i_price oi * q \<and> i_quantity oi = parseInt q) items new"
proof (induction items arbitrary: acc tot)
  case Nil
  then show ?case by simp
next
  case (Cons item rest)
  from Cons.prems obtain pid q p where
    f: "ci_productId item = Some pid" "ci_quantity item = Some q" "0 < q"
       "find (\<lambda>p. p_id p = parseInt pid) prods = Some p"
    and rec: "processItems prods rest
          (acc @ [\<lparr>i_productId = p_id p, i_productName = p_name p, i_productImage = p_image p,
                   i_price = p_price p, i_quantity = parseInt q, i_subtotal = p_price p * q\<rparr>])
          (tot + p_price p * q) = Inr (its, t)"
    by (auto simp: Let_def split: option.splits if_splits)
  from Cons.IH[OF rec] obtain new where
    n: "its = (acc @ [\<lparr>i_productId = p_id p, i_productName = p_name p, i_productImage = p_image p,
                   i_price = p_price p, i_quantity = parseInt q, i_subtotal = p_price p * q\<rparr>]) @ new"
       "t = (tot + p_price p * q) + sum_list (map i_subtotal new)"
       "list_all2 (\<lambda>ci oi. \<exists>q. ci_quantity ci = Some q \<and> 0 < q
                      \<and> i_subtotal oi = i_price oi * q \<and> i_quantity oi = parseInt q) rest new"
    by blast
  show ?case
    apply (rule exI[of _ "\<lparr>i_productId = p_id p, i_productName = p_name p, i_productImage = p_image p,
                   i_price = p_price p, i_quantity = parseInt q, i_subtotal = p_price p * q\<rparr> # new"])
    using n f by simp
qed

lemma createOrder_created:
  assumes "statusCode (fst (createOrder e db decoded body)) = 201"
  shows "\<exists>b items sa its t ord. body = Some b \<and> validateBody b = Inr (items, sa)
       \<and> processItems (products db) items [] 0 = Inr (its, t)
       \<and> o_items ord = its \<and> o_subtotal ord = t
       \<and> o_shippingCost ord = shippingCost_of t
       \<and> o_totalAmount ord = t + shippingCost_of t
       \<and> o_status ord = ''pending'' \<and> o_paymentStatus ord = ''pending''
       \<and> fst (createOrder e db decoded body) = createResponse 201 ''Order created successfully'' (OrderCreated ord)
       \<and> snd (createOrder e db decoded body)
            = db\<lparr>products := updateStocks (products db) its, orders := orders db @ [ord]\<rparr>"
proof -
  note S = createOrder_def createErrorResponse_def internalError_create_def Let_def
  from assms obtain b where b: "body = Some b"
    by (cases body) (simp_all add: S)
  from assms b obtain v where v: "validateBody b = Inr v"
    by (cases "validateBody b") (auto simp add: S dest: validateBody_error_status)
  obtain items sa where vv: "v = (items, sa)" by (cases v)
  from assms b v vv obtain r where r: "processItems (products db) items [] 0 = Inr r"
    by (cases "processItems (products db) items [] 0")
       (auto simp add: S dest: processItems_error_status)
  obtain its t where it: "r = (its, t)" by (cases r)
  from assms b v vv r it obtain payload where p: "cl_payload decoded = Some payload"
    by (cases "cl_payload decoded") (simp_all add: S)
  show ?thesis
    using b v vv r it p
    by (simp add: S createResponse_def)
qed

text \<open>
  The totals of every created order: the subtotal is the sum of the line subtotals,
  the total adds the shipping cost, and shipping is free exactly above 100 and 15
  otherwise. Each line subtotal is the snapshotted price times the quantity as
  requested (\<open>processItems_priced\<close>), of which the stored quantity is the integer part.
\<close>

lemma createOrder_totals:
  assumes "statusCode (fst (createOrder e db decoded body)) = 201"
  shows "\<exists>ord. orders (snd (createOrder e db decoded body)) = orders db @ [ord]
       \<and> o_subtotal ord = sum_list (map i_subtotal (o_items ord))
       \<and> o_totalAmount ord = o_subtotal ord + o_shippingCost ord
       \<and> (o_shippingCost ord = 0 \<longleftrightarrow> o_subtotal ord > 100)
       \<and> (o_shippingCost ord \<noteq> 0 \<longrightarrow> o_shippingCost ord = 15)"
proof -
  from createOrder_created[OF assms] obtain items its t ord where
    c: "processItems (products db) items [] 0 = Inr (its, t)"
       "o_items ord = its" "o_subtotal ord = t" "o_shippingCost ord = shippingCost_of t"
       "o_totalAmount ord = t + shippingCost_of t"
       "snd (createOrder e db decoded body)
            = db\<lparr>products := updateStocks (products db) its, orders := orders db @ [ord]\<rparr>"
    by blast
  from processItems_priced[OF c(1)] have "t = sum_list (map i_subtotal its)" by auto
  then show ?thesis using c by (auto simp: shippingCost_of_def)
qed

text \<open>
  For a token whose claims carry \<open>success\<close> and \<open>payload\<close>, sent as
  \<open>Bearer Bearer <token>\<close>, the whole handler is \<open>createOrder\<close> on the body.
\<close>

lemma sample_handler_createOrder:
  "orders_create_handler (sample_jv sample_decoded) sample_env db Map.empty
     (sample_event (Some ''Bearer Bearer header.payload.signature'') body)
   = (fst (createOrder sample_env db sample_decoded (Some body)),
      snd (createOrder sample_env db sample_decoded (Some body)),
      [rate_key ''203.0.113.7'' ''order-create'' \<mapsto> [1700000000000]])"
  by (simp add: orders_create_handler_def handleCORS_def sample_event_def sample_env_def
        clientIP_of_def checkRateLimit_def isDevelopment_def validRequests_def
        verifyToken_def startsWith_def trim_def is_space_def sample_jv_def
        falsy_int_def falsy_str_def sample_decoded_def Let_def case_prod_unfold)




text \<open>
  Claim C7 at a cart with two lines for the same product: each line asks for 6 of a
  stock of 10 and passes the stock check, which reads the stock before any
  decrement; the stock loop then leaves - 2. And the Express route
  \<open>PUT /api/products/:id\<close>, which has no validation, stores the stock - 5 it is sent.
\<close>

theorem stock_goes_negative:
  "statusCode (fst (orders_create_handler (sample_jv sample_decoded) sample_env sample_db Map.empty
       (sample_event (Some ''Bearer Bearer header.payload.signature'')
          (sample_body [line 1 6, line 1 6])))) = 201
   \<and> stock_of (products sample_db) 1 = Some 10
   \<and> stock_of (products (fst (snd
        (orders_create_handler (sample_jv sample_decoded) sample_env sample_db Map.empty
           (sample_event (Some ''Bearer Bearer header.payload.signature'')
              (sample_body [line 1 6, line 1 6])))))) 1 = Some (- 2)
   \<and> stock_of (snd (express_updateProduct 1700000000000 (products sample_db) 1
        \<lparr>pu_name = [], pu_price = None, pu_description = [], pu_category = [],
         pu_stock = Some (- 5)\<rparr> None)) 1 = Some (- 5)"
  unfolding sample_handler_createOrder
  by (simp add: createOrder_def sample_body_valid sample_db_def sample_product_def line_def
        parseInt_def sample_decoded_def createResponse_def Let_def stock_of_def
        express_updateProduct_def)

section \<open>Token verification and the gate of the order handler\<close>



lemma orders_create_handler_db:
  "fst (snd (orders_create_handler jv e db store event)) = db
   \<or> (\<exists>h decoded. ev_authorization event = Some h
        \<and> verifyToken jv (replace_first ''Bearer '' [] h) = Inr decoded \<and> cl_success decoded)"
  by (auto simp: orders_create_handler_def Let_def case_prod_unfold split: option.splits sum.splits)




text \<open>
  The Express middleware enforces the ceiling: a token the library accepts (so its
  own expiry lies in the future) is answered 401 TOKEN\_EXPIRED once its \<open>iat\<close> is
  more than 24 hours old, as is a token whose own expiry has passed.
\<close>

lemma express_verifyToken_ceiling:
  assumes "startsWith h ''Bearer ''"
    and "10 \<le> length (trim (replace_first ''Bearer '' [] h))"
    and "jv (trim (replace_first ''Bearer '' [] h)) = Inr decoded"
    and "\<not> falsy_int (cl_id decoded)" and "\<not> falsy_str (cl_email decoded)"
    and "cl_iat decoded = Some iat" and "(of_int now :: rat) / 1000 - of_int iat > 24 * 60 * 60"
  shows "express_verifyToken jv now (Some h) = Inl (express_json 401 ''Token expired'' ''TOKEN_EXPIRED'')"
  using assms by (auto simp: express_verifyToken_def tokenTooOld_def startsWith_def Let_def)

lemma express_verifyToken_expired:
  assumes "startsWith h ''Bearer ''"
    and "10 \<le> length (trim (replace_first ''Bearer '' [] h))"
    and "jv (trim (replace_first ''Bearer '' [] h)) = Inl TokenExpiredError"
  shows "express_verifyToken jv now (Some h)
           = Inl (express_json 401 ''Token has expired'' ''TOKEN_EXPIRED'')"
  using assms by (auto simp: express_verifyToken_def startsWith_def Let_def)

text \<open>
  Claim C5 at a token issued two days ago whose own expiry is still ahead (the
  library accepts it): the Express middleware answers 401 TOKEN\_EXPIRED, while
  \<open>verifyToken\<close> of utils.js, which has no clock at all, returns the claims.
\<close>

theorem verifyToken_no_age_ceiling:
  "tokenTooOld 1700172800000 (cl_iat login_claims)
   \<and> express_verifyToken (sample_jv login_claims) 1700172800000
         (Some ''Bearer header.payload.signature'')
       = Inl (express_json 401 ''Token expired'' ''TOKEN_EXPIRED'')
   \<and> verifyToken (sample_jv login_claims) ''Bearer header.payload.signature'' = Inr login_claims"
  by (simp add: express_verifyToken_def verifyToken_def tokenTooOld_def startsWith_def trim_def
        is_space_def sample_jv_def login_claims_def falsy_int_def falsy_str_def Let_def)

section \<open>Order update\<close>



lemma addStock_other_fields:
  "map (\<lambda>p. p\<lparr>p_stock := 0\<rparr>) (addStock pid d ps) = map (\<lambda>p. p\<lparr>p_stock := 0\<rparr>) ps"
  by (induction ps) auto

lemma restoreStocks_other_fields:
  "map (\<lambda>p. p\<lparr>p_stock := 0\<rparr>) (restoreStocks ps its) = map (\<lambda>p. p\<lparr>p_stock := 0\<rparr>) ps"
  by (induction its arbitrary: ps) (auto simp: addStock_other_fields)

































section \<open>Login and registration\<close>






















end
